theory Spec2Isabelle
  imports Main "HOL-Library.Word"
begin

unbundle bit_operations_syntax

section \<open>Machine types and constants of imx377.c\<close>

type_synonym u8 = "8 word"
type_synonym u16 = "16 word"
type_synonym u32 = "32 word"

text \<open>A C \<open>int\<close>: 32 bits, read as two's complement (\<open>sint\<close>, \<open><s\<close>).\<close>
type_synonym s32 = "32 word"

definition IMX377_STANDBY :: u16 where "IMX377_STANDBY = 0x3000"
definition IMX377_REG_MODE_SELECT :: u16 where "IMX377_REG_MODE_SELECT = 0x0100"
definition IMX377_REG_GAIN_H :: u16 where "IMX377_REG_GAIN_H = 0x3009"
definition IMX377_REG_GAIN_L :: u16 where "IMX377_REG_GAIN_L = 0x300A"
definition IMX377_REG_EXPOSURE_H :: u16 where "IMX377_REG_EXPOSURE_H = 0x300B"
definition IMX377_REG_EXPOSURE_L :: u16 where "IMX377_REG_EXPOSURE_L = 0x300C"

text \<open>
  Constants of the Linux headers the file includes (\<open>errno-base.h\<close>,
  \<open>v4l2-controls.h\<close>); the driver only names them.
\<close>
definition EIO :: s32 where "EIO = 5"
definition V4L2_CID_EXPOSURE :: u32 where "V4L2_CID_EXPOSURE = 0x00980911"
definition V4L2_CID_ANALOGUE_GAIN :: u32 where "V4L2_CID_ANALOGUE_GAIN = 0x009E0903"

section \<open>The kernel services the driver calls\<close>

text \<open>
  The regulator, clock, GPIO and I2C cores are outside the driver. They are modelled as a
  world that (1) hands out the return value of every call that can fail from a script the
  environment chooses freely, (2) logs every call in order, and (3) keeps a use count per
  power resource: a successful enable adds one, a disable takes one away and stops at zero.
\<close>

datatype resource = DVDD | AVDD | DOVDD | XCLK

datatype gpio_desc = ResetLine | PwdnLine

datatype event =
    Enable resource s32
  | Disable resource
  | GpiodSetValue gpio_desc s32
  | UsleepRange nat nat
  | I2cMasterSend "u8 list" nat s32

record kernel =
  pending :: "nat \<Rightarrow> s32"
  trace :: "event list"
  use_count :: "resource \<Rightarrow> nat"

text \<open>The next scripted return value, and the script with that value consumed.\<close>
definition next_reply :: "kernel \<Rightarrow> s32" where
  "next_reply k = pending k 0"

definition consume :: "kernel \<Rightarrow> kernel" where
  "consume k = k\<lparr>pending := (\<lambda>n. pending k (Suc n))\<rparr>"

definition emit :: "event \<Rightarrow> kernel \<Rightarrow> kernel" where
  "emit e k = k\<lparr>trace := trace k @ [e]\<rparr>"

definition enable_resource :: "resource \<Rightarrow> kernel \<Rightarrow> s32 \<times> kernel" where
  "enable_resource r k =
     (let ret = next_reply k;
          k1 = emit (Enable r ret) (consume k)
      in (ret, if ret = 0 then k1\<lparr>use_count := (use_count k1)(r := Suc (use_count k1 r))\<rparr>
               else k1))"

definition disable_resource :: "resource \<Rightarrow> kernel \<Rightarrow> kernel" where
  "disable_resource r k =
     (let k1 = emit (Disable r) k
      in k1\<lparr>use_count := (use_count k1)(r := use_count k1 r - 1)\<rparr>)"

definition regulator_enable :: "resource \<Rightarrow> kernel \<Rightarrow> s32 \<times> kernel" where
  "regulator_enable r k = enable_resource r k"

definition regulator_disable :: "resource \<Rightarrow> kernel \<Rightarrow> kernel" where
  "regulator_disable r k = disable_resource r k"

definition clk_prepare_enable :: "kernel \<Rightarrow> s32 \<times> kernel" where
  "clk_prepare_enable k = enable_resource XCLK k"

definition clk_disable_unprepare :: "kernel \<Rightarrow> kernel" where
  "clk_disable_unprepare k = disable_resource XCLK k"

definition gpiod_set_value_cansleep :: "gpio_desc \<Rightarrow> s32 \<Rightarrow> kernel \<Rightarrow> kernel" where
  "gpiod_set_value_cansleep d v k = emit (GpiodSetValue d v) k"

definition usleep_range :: "nat \<Rightarrow> nat \<Rightarrow> kernel \<Rightarrow> kernel" where
  "usleep_range lo hi k = emit (UsleepRange lo hi) k"

definition i2c_master_send :: "u8 list \<Rightarrow> nat \<Rightarrow> kernel \<Rightarrow> s32 \<times> kernel" where
  "i2c_master_send buf count k =
     (let ret = next_reply k
      in (ret, emit (I2cMasterSend buf count ret) (consume k)))"

section \<open>I2C helpers\<close>

definition imx377_write_reg :: "u16 \<Rightarrow> u8 \<Rightarrow> kernel \<Rightarrow> s32 \<times> kernel" where
  "imx377_write_reg reg v k =
     (let buf = [ucast (drop_bit 8 reg), ucast (reg AND 0xff), v];
          (ret, k1) = i2c_master_send buf 3 k
      in (if ret = 3 then 0 else if ret <s 0 then ret else - EIO, k1))"

section \<open>Device state\<close>

record imx377_mode =
  width :: u32
  height :: u32
  code :: u32
  hts :: u32
  vts :: u32
  link_freq :: "64 word"

text \<open>\<open>MEDIA_BUS_FMT_SRGGB12_1X12\<close> is \<open>0x3012\<close> in \<open>media-bus-format.h\<close>.\<close>
definition imx377_default_mode :: imx377_mode where
  "imx377_default_mode =
     \<lparr>width = 4056, height = 3040, code = 0x3012, hts = 0x0172, vts = 0x0CB2,
      link_freq = 576000000\<rparr>"

text \<open>
  The fields of \<open>struct v4l2_ctrl\<close> the driver reads: the id and \<open>val\<close>, the value being
  set when \<open>s_ctrl\<close> is called.
\<close>
record v4l2_ctrl =
  ctrl_id :: u32
  ctrl_val :: s32

text \<open>
  The fields of \<open>struct imx377\<close> the driver core reads or writes. The regulator and clock
  handles are bound by name in probe and are the constants \<open>DVDD\<close>, \<open>AVDD\<close>, \<open>DOVDD\<close>,
  \<open>XCLK\<close>; the two GPIO handles may be NULL (\<open>None\<close>). The handler \<open>ctrls\<close> owns exactly
  the two controls probe creates in it, and \<open>gain_ctrl\<close> and \<open>exp_ctrl\<close> point to them: the
  record holds the two objects themselves. A control handed to \<open>imx377_set_ctrl\<close> is one
  of them, since the function finds the device by \<open>container_of(ctrl->handler, ...)\<close>.
\<close>
record imx377 =
  reset_gpio :: "gpio_desc option"
  pwdn_gpio :: "gpio_desc option"
  gain_ctrl :: v4l2_ctrl
  exp_ctrl :: v4l2_ctrl
  cur_mode :: imx377_mode
  streaming :: bool

section \<open>Power management\<close>

text \<open>The three rollback labels of \<open>imx377_power_on\<close>; each falls through to the next.\<close>
definition disable_dvdd :: "s32 \<Rightarrow> kernel \<Rightarrow> s32 \<times> kernel" where
  "disable_dvdd ret k = (ret, regulator_disable DVDD k)"

definition disable_avdd :: "s32 \<Rightarrow> kernel \<Rightarrow> s32 \<times> kernel" where
  "disable_avdd ret k = disable_dvdd ret (regulator_disable AVDD k)"

definition disable_dovdd :: "s32 \<Rightarrow> kernel \<Rightarrow> s32 \<times> kernel" where
  "disable_dovdd ret k = disable_avdd ret (regulator_disable DOVDD k)"

definition imx377_power_on :: "imx377 \<Rightarrow> kernel \<Rightarrow> s32 \<times> kernel" where
  "imx377_power_on priv k =
     (let (ret, k1) = regulator_enable DVDD k in
      if ret \<noteq> 0 then (ret, k1) else
      let (ret, k2) = regulator_enable AVDD k1 in
      if ret \<noteq> 0 then disable_dvdd ret k2 else
      let (ret, k3) = regulator_enable DOVDD k2 in
      if ret \<noteq> 0 then disable_avdd ret k3 else
      let (ret, k4) = clk_prepare_enable k3 in
      if ret \<noteq> 0 then disable_dovdd ret k4 else
      let k5 = (case reset_gpio priv of
                  Some d \<Rightarrow> gpiod_set_value_cansleep d 1 k4 | None \<Rightarrow> k4);
          k6 = (case pwdn_gpio priv of
                  Some d \<Rightarrow> gpiod_set_value_cansleep d 0 k5 | None \<Rightarrow> k5)
      in (0, usleep_range 5000 10000 k6))"

definition imx377_power_off :: "imx377 \<Rightarrow> kernel \<Rightarrow> kernel" where
  "imx377_power_off priv k =
     (let k1 = (case reset_gpio priv of
                  Some d \<Rightarrow> gpiod_set_value_cansleep d 0 k | None \<Rightarrow> k);
          k2 = (case pwdn_gpio priv of
                  Some d \<Rightarrow> gpiod_set_value_cansleep d 1 k1 | None \<Rightarrow> k1);
          k3 = clk_disable_unprepare k2;
          k4 = regulator_disable DOVDD k3;
          k5 = regulator_disable AVDD k4
      in regulator_disable DVDD k5)"

section \<open>Streaming\<close>

text \<open>The label \<open>err_power\<close> of \<open>imx377_start_streaming\<close>.\<close>
definition err_power :: "s32 \<Rightarrow> imx377 \<Rightarrow> kernel \<Rightarrow> s32 \<times> imx377 \<times> kernel" where
  "err_power ret priv k = (ret, priv, imx377_power_off priv k)"

definition imx377_start_streaming :: "imx377 \<Rightarrow> kernel \<Rightarrow> s32 \<times> imx377 \<times> kernel" where
  "imx377_start_streaming priv k =
     (let (ret, k1) = imx377_power_on priv k in
      if ret \<noteq> 0 then (ret, priv, k1) else
      let (ret, k2) = imx377_write_reg IMX377_STANDBY 0x00 k1 in
      if ret \<noteq> 0 then err_power ret priv k2 else
      let (ret, k3) = imx377_write_reg IMX377_REG_MODE_SELECT 0x01 k2 in
      if ret \<noteq> 0 then err_power ret priv k3 else
      (0, priv\<lparr>streaming := True\<rparr>, k3))"

definition imx377_stop_streaming :: "imx377 \<Rightarrow> kernel \<Rightarrow> s32 \<times> imx377 \<times> kernel" where
  "imx377_stop_streaming priv k =
     (let (ret, k1) = imx377_write_reg IMX377_REG_MODE_SELECT 0x00 k;
          priv1 = priv\<lparr>streaming := False\<rparr>
      in (ret, priv1, imx377_power_off priv1 k1))"

section \<open>V4L2 control operations\<close>

text \<open>
  The value bytes handed to \<open>imx377_write_reg\<close>: \<open>ctrl->val\<close> is a signed 32-bit
  integer, \<open>>>\<close> on it is the arithmetic shift, and the \<open>u8\<close> parameter keeps the low
  eight bits.
\<close>
definition exposure_h :: "s32 \<Rightarrow> u8" where
  "exposure_h v = ucast (signed_drop_bit 8 v AND 0xFF)"

definition exposure_l :: "s32 \<Rightarrow> u8" where
  "exposure_l v = ucast (v AND 0xFF)"

definition gain_h :: "s32 \<Rightarrow> u8" where
  "gain_h v = ucast (signed_drop_bit 8 v AND 0x07)"

definition gain_l :: "s32 \<Rightarrow> u8" where
  "gain_l v = ucast (v AND 0xFF)"

definition imx377_set_ctrl :: "v4l2_ctrl \<Rightarrow> imx377 \<Rightarrow> kernel \<Rightarrow> s32 \<times> imx377 \<times> kernel" where
  "imx377_set_ctrl ctrl priv k =
     (if \<not> streaming priv then (0, priv, k)
      else if ctrl_id ctrl = V4L2_CID_EXPOSURE then
        (let (ret1, k1) = imx377_write_reg IMX377_REG_EXPOSURE_H (exposure_h (ctrl_val ctrl)) k;
             (ret2, k2) = imx377_write_reg IMX377_REG_EXPOSURE_L (exposure_l (ctrl_val ctrl)) k1
         in (ret1 OR ret2, priv, k2))
      else if ctrl_id ctrl = V4L2_CID_ANALOGUE_GAIN then
        (let (ret1, k1) = imx377_write_reg IMX377_REG_GAIN_H (gain_h (ctrl_val ctrl)) k;
             (ret2, k2) = imx377_write_reg IMX377_REG_GAIN_L (gain_l (ctrl_val ctrl)) k1
         in (ret1 OR ret2, priv, k2))
      else (0, priv, k))"

text \<open>
  The driver never reads a gain back. The inverse of the split is the datasheet's reading
  of the register pair, as the specification words it: high register shifted left by
  eight, or-ed with the low register.
\<close>
definition spec_gain_decode :: "u8 \<Rightarrow> u8 \<Rightarrow> s32" where
  "spec_gain_decode h l = push_bit 8 (ucast h) OR ucast l"

section \<open>Vocabulary of the statements\<close>

text \<open>The four enable steps of \<open>imx377_power_on\<close>, in the order of the source.\<close>
definition power_seq :: "resource list" where
  "power_seq = [DVDD, AVDD, DOVDD, XCLK]"

text \<open>What \<open>if (desc) gpiod_set_value_cansleep(desc, v)\<close> adds to the log.\<close>
definition gpio_calls :: "gpio_desc option \<Rightarrow> s32 \<Rightarrow> event list" where
  "gpio_calls d v = (case d of None \<Rightarrow> [] | Some g \<Rightarrow> [GpiodSetValue g v])"

text \<open>The calls of a successful \<open>imx377_power_on\<close> and those of \<open>imx377_power_off\<close>.\<close>
definition power_on_calls :: "imx377 \<Rightarrow> event list" where
  "power_on_calls priv =
     [Enable DVDD 0, Enable AVDD 0, Enable DOVDD 0, Enable XCLK 0] @
     gpio_calls (reset_gpio priv) 1 @ gpio_calls (pwdn_gpio priv) 0 @
     [UsleepRange 5000 10000]"

definition power_off_calls :: "imx377 \<Rightarrow> event list" where
  "power_off_calls priv =
     gpio_calls (reset_gpio priv) 0 @ gpio_calls (pwdn_gpio priv) 1 @
     [Disable XCLK, Disable DOVDD, Disable AVDD, Disable DVDD]"

subsection \<open>Concrete devices and worlds\<close>

text \<open>A script given by its first replies; every later reply is 0.\<close>
definition script :: "s32 list \<Rightarrow> nat \<Rightarrow> s32" where
  "script rs n = (if n < length rs then rs ! n else 0)"

text \<open>A world with nothing logged and every resource off, or every resource enabled once.\<close>
definition kernel_off :: "(nat \<Rightarrow> s32) \<Rightarrow> kernel" where
  "kernel_off p = \<lparr>pending = p, trace = [], use_count = (\<lambda>r. 0)\<rparr>"

definition kernel_on :: "(nat \<Rightarrow> s32) \<Rightarrow> kernel" where
  "kernel_on p = \<lparr>pending = p, trace = [], use_count = (\<lambda>r. 1)\<rparr>"

text \<open>
  A device as probe leaves it, on a board with a reset line and no power-down line: the
  gain control at its default 0, the exposure control at its default \<open>0x03E8\<close>.
\<close>
definition board :: imx377 where
  "board = \<lparr>reset_gpio = Some ResetLine, pwdn_gpio = None,
            gain_ctrl = \<lparr>ctrl_id = V4L2_CID_ANALOGUE_GAIN, ctrl_val = 0\<rparr>,
            exp_ctrl = \<lparr>ctrl_id = V4L2_CID_EXPOSURE, ctrl_val = 0x03E8\<rparr>,
            cur_mode = imx377_default_mode, streaming = False\<rparr>"

section \<open>Closed forms of the kernel services and the register write\<close>

lemma add4: "n + 4 = Suc (Suc (Suc (Suc n)))"
  by simp

lemma upt_0_3: "[0..<3] = [0, 1, 2 :: nat]"
  by (simp add: upt_conv_Cons)

lemma less_4_cases: "i < 4 \<Longrightarrow> i = 0 \<or> i = 1 \<or> i = 2 \<or> i = (3::nat)"
  by linarith

lemma enable_resource_eq:
  "enable_resource r k =
     (pending k 0,
      \<lparr>pending = (\<lambda>n. pending k (Suc n)),
       trace = trace k @ [Enable r (pending k 0)],
       use_count = (if pending k 0 = 0 then (use_count k)(r := Suc (use_count k r))
                    else use_count k)\<rparr>)"
  by (simp add: enable_resource_def next_reply_def consume_def emit_def Let_def)

lemma disable_resource_eq:
  "disable_resource r k =
     \<lparr>pending = pending k, trace = trace k @ [Disable r],
      use_count = (use_count k)(r := use_count k r - 1)\<rparr>"
  by (simp add: disable_resource_def emit_def Let_def)

lemma imx377_write_reg_eq:
  "imx377_write_reg reg v k =
     (if pending k 0 = 3 then 0 else if pending k 0 <s 0 then pending k 0 else - EIO,
      \<lparr>pending = (\<lambda>n. pending k (Suc n)),
       trace = trace k @ [I2cMasterSend [ucast (drop_bit 8 reg), ucast (reg AND 0xff), v] 3
                              (pending k 0)],
       use_count = use_count k\<rparr>)"
  by (simp add: imx377_write_reg_def i2c_master_send_def next_reply_def consume_def emit_def
      Let_def)

lemma write_reg_fst:
  "fst (imx377_write_reg reg v k) =
     (if pending k 0 = 3 then 0 else if pending k 0 <s 0 then pending k 0 else - EIO)"
  by (simp add: imx377_write_reg_eq)

lemma write_reg_snd:
  "snd (imx377_write_reg reg v k) =
      \<lparr>pending = (\<lambda>n. pending k (Suc n)),
       trace = trace k @ [I2cMasterSend [ucast (drop_bit 8 reg), ucast (reg AND 0xff), v] 3
                              (pending k 0)],
       use_count = use_count k\<rparr>"
  by (simp add: imx377_write_reg_eq)

lemma write_reg_ok_iff: "fst (imx377_write_reg reg v k) = 0 \<longleftrightarrow> pending k 0 = 3"
  by (auto simp add: write_reg_fst EIO_def word_sless_alt)

lemma reg_bytes:
  "(ucast (drop_bit 8 IMX377_STANDBY) :: u8) = 0x30"
  "(ucast (IMX377_STANDBY AND 0xff) :: u8) = 0x00"
  "(ucast (drop_bit 8 IMX377_REG_MODE_SELECT) :: u8) = 0x01"
  "(ucast (IMX377_REG_MODE_SELECT AND 0xff) :: u8) = 0x00"
  "(ucast (drop_bit 8 IMX377_REG_EXPOSURE_H) :: u8) = 0x30"
  "(ucast (IMX377_REG_EXPOSURE_H AND 0xff) :: u8) = 0x0B"
  "(ucast (drop_bit 8 IMX377_REG_EXPOSURE_L) :: u8) = 0x30"
  "(ucast (IMX377_REG_EXPOSURE_L AND 0xff) :: u8) = 0x0C"
  "(ucast (drop_bit 8 IMX377_REG_GAIN_H) :: u8) = 0x30"
  "(ucast (IMX377_REG_GAIN_H AND 0xff) :: u8) = 0x09"
  "(ucast (drop_bit 8 IMX377_REG_GAIN_L) :: u8) = 0x30"
  "(ucast (IMX377_REG_GAIN_L AND 0xff) :: u8) = 0x0A"
  by (simp_all add: IMX377_STANDBY_def IMX377_REG_MODE_SELECT_def IMX377_REG_EXPOSURE_H_def
      IMX377_REG_EXPOSURE_L_def IMX377_REG_GAIN_H_def IMX377_REG_GAIN_L_def)

section \<open>Register transport\<close>

text \<open>
  C9. A register write is one call of the bus with the three bytes
  address-high, address-low, value. It returns 0 exactly when the bus reports 3 bytes
  moved, \<open>-EIO\<close> when the bus reports a count from 0 to 2, and the bus's own code when
  that code is negative.
\<close>
theorem write_reg_transport:
  "trace (snd (imx377_write_reg reg v k)) =
     trace k @ [I2cMasterSend [ucast (drop_bit 8 reg), ucast (reg AND 0xff), v] 3 (pending k 0)]
   \<and> (fst (imx377_write_reg reg v k) = 0 \<longleftrightarrow> pending k 0 = 3)
   \<and> (0 \<le>s pending k 0 \<and> pending k 0 <s 3 \<longrightarrow> fst (imx377_write_reg reg v k) = - EIO)
   \<and> (pending k 0 <s 0 \<longrightarrow> fst (imx377_write_reg reg v k) = pending k 0)"
  by (auto simp add: imx377_write_reg_eq EIO_def word_sless_alt word_sle_eq)

text \<open>
  The write of \<open>0x01\<close> to the mode-select register on three buses: one that moves all three
  bytes, one that moves a single byte, one that fails with \<open>-ENXIO\<close>.
\<close>
theorem write_reg_transport_witness:
  "imx377_write_reg IMX377_REG_MODE_SELECT 0x01 (kernel_on (script [3])) =
     (0, \<lparr>pending = (\<lambda>n. script [3] (Suc n)),
          trace = [I2cMasterSend [0x01, 0x00, 0x01] 3 3], use_count = (\<lambda>r. 1)\<rparr>)
   \<and> fst (imx377_write_reg IMX377_REG_MODE_SELECT 0x01 (kernel_on (script [1]))) = - 5
   \<and> fst (imx377_write_reg IMX377_REG_MODE_SELECT 0x01 (kernel_on (script [- 6]))) = - 6"
proof -
  have a: "pending (kernel_on (script [3])) 0 = 3" "pending (kernel_on (script [1])) 0 = 1"
    "pending (kernel_on (script [- 6])) 0 = - 6"
    by (simp_all add: kernel_on_def script_def)
  have b: "0 \<le>s (1 :: s32) \<and> (1 :: s32) <s 3" "(- 6 :: s32) <s 0"
    by (simp_all add: word_sless_alt word_sle_eq)
  from write_reg_transport [of IMX377_REG_MODE_SELECT "0x01" "kernel_on (script [3])"]
    write_reg_transport [of IMX377_REG_MODE_SELECT "0x01" "kernel_on (script [1])"]
    write_reg_transport [of IMX377_REG_MODE_SELECT "0x01" "kernel_on (script [- 6])"]
    a b
  show ?thesis
    by (simp add: prod_eq_iff write_reg_snd reg_bytes kernel_on_def EIO_def)
qed

section \<open>Power sequencing\<close>

lemma power_on_fail_dvdd:
  assumes "pending k 0 \<noteq> 0"
  shows "imx377_power_on priv k =
     (pending k 0,
      \<lparr>pending = (\<lambda>n. pending k (Suc n)),
       trace = trace k @ [Enable DVDD (pending k 0)],
       use_count = use_count k\<rparr>)"
  using assms
  by (simp add: imx377_power_on_def regulator_enable_def enable_resource_eq)

lemma power_on_fail_avdd:
  assumes "pending k 0 = 0" "pending k 1 \<noteq> 0"
  shows "imx377_power_on priv k =
     (pending k 1,
      \<lparr>pending = (\<lambda>n. pending k (n + 2)),
       trace = trace k @ [Enable DVDD 0, Enable AVDD (pending k 1), Disable DVDD],
       use_count = use_count k\<rparr>)"
  using assms
  by (simp add: imx377_power_on_def regulator_enable_def regulator_disable_def
      disable_dvdd_def enable_resource_eq disable_resource_eq)

lemma power_on_fail_dovdd:
  assumes "pending k 0 = 0" "pending k 1 = 0" "pending k 2 \<noteq> 0"
  shows "imx377_power_on priv k =
     (pending k 2,
      \<lparr>pending = (\<lambda>n. pending k (n + 3)),
       trace = trace k @ [Enable DVDD 0, Enable AVDD 0, Enable DOVDD (pending k 2),
                          Disable AVDD, Disable DVDD],
       use_count = use_count k\<rparr>)"
  using assms
  by (simp add: imx377_power_on_def regulator_enable_def regulator_disable_def
      disable_dvdd_def disable_avdd_def enable_resource_eq disable_resource_eq
      numeral_2_eq_2 numeral_3_eq_3 fun_eq_iff)

lemma power_on_fail_xclk:
  assumes "pending k 0 = 0" "pending k 1 = 0" "pending k 2 = 0" "pending k 3 \<noteq> 0"
  shows "imx377_power_on priv k =
     (pending k 3,
      \<lparr>pending = (\<lambda>n. pending k (n + 4)),
       trace = trace k @ [Enable DVDD 0, Enable AVDD 0, Enable DOVDD 0,
                          Enable XCLK (pending k 3),
                          Disable DOVDD, Disable AVDD, Disable DVDD],
       use_count = use_count k\<rparr>)"
  using assms
  by (simp add: imx377_power_on_def regulator_enable_def regulator_disable_def
      clk_prepare_enable_def disable_dvdd_def disable_avdd_def disable_dovdd_def
      enable_resource_eq disable_resource_eq numeral_2_eq_2 numeral_3_eq_3 add4 fun_eq_iff)

lemma power_on_ok:
  assumes "pending k 0 = 0" "pending k 1 = 0" "pending k 2 = 0" "pending k 3 = 0"
  shows "imx377_power_on priv k =
     (0, \<lparr>pending = (\<lambda>n. pending k (n + 4)), trace = trace k @ power_on_calls priv,
          use_count = (\<lambda>r. Suc (use_count k r))\<rparr>)"
proof -
  have u: "(\<lambda>r. Suc (use_count k r)) =
      (use_count k)(DVDD := Suc (use_count k DVDD), AVDD := Suc (use_count k AVDD),
        DOVDD := Suc (use_count k DOVDD), XCLK := Suc (use_count k XCLK))"
  proof
    fix r show "Suc (use_count k r) =
      ((use_count k)(DVDD := Suc (use_count k DVDD), AVDD := Suc (use_count k AVDD),
        DOVDD := Suc (use_count k DOVDD), XCLK := Suc (use_count k XCLK))) r"
      by (cases r) simp_all
  qed
  show ?thesis
    unfolding u using assms
    by (simp add: imx377_power_on_def regulator_enable_def clk_prepare_enable_def
        gpiod_set_value_cansleep_def usleep_range_def emit_def enable_resource_eq
        power_on_calls_def gpio_calls_def numeral_2_eq_2 numeral_3_eq_3 add4
        split: option.split)
qed

lemma power_off_eq:
  "imx377_power_off priv k =
     \<lparr>pending = pending k, trace = trace k @ power_off_calls priv,
      use_count = (\<lambda>r. use_count k r - 1)\<rparr>"
proof -
  have u: "(\<lambda>r. use_count k r - 1) =
      (use_count k)(XCLK := use_count k XCLK - 1, DOVDD := use_count k DOVDD - 1,
        AVDD := use_count k AVDD - 1, DVDD := use_count k DVDD - 1)"
  proof
    fix r show "use_count k r - 1 =
      ((use_count k)(XCLK := use_count k XCLK - 1, DOVDD := use_count k DOVDD - 1,
        AVDD := use_count k AVDD - 1, DVDD := use_count k DVDD - 1)) r"
      by (cases r) simp_all
  qed
  show ?thesis
    unfolding u
    by (simp add: imx377_power_off_def regulator_disable_def clk_disable_unprepare_def
        gpiod_set_value_cansleep_def emit_def disable_resource_eq power_off_calls_def
        gpio_calls_def split: option.split)
qed

text \<open>
  C1. Let step \<open>k\<close> (counted from 0: dvdd, avdd, dovdd, clock) be the first enable that
  fails. Then \<open>imx377_power_on\<close> returns the code of that enable; the calls it made are the
  enables of steps \<open>0..k\<close> followed by the disables of steps \<open>0..k-1\<close> in reverse order,
  and nothing else; every use count is what it was at entry, so a sequencer that was off
  is off again.
\<close>
theorem power_on_rollback:
  assumes "k < 4" and "\<forall>i<k. pending kn i = 0" and "pending kn k \<noteq> 0"
  shows "fst (imx377_power_on priv kn) = pending kn k
       \<and> trace (snd (imx377_power_on priv kn)) =
           trace kn @ map (\<lambda>i. Enable (power_seq ! i) (pending kn i)) [0..<Suc k]
                    @ map Disable (rev (take k power_seq))
       \<and> use_count (snd (imx377_power_on priv kn)) = use_count kn
       \<and> ((\<forall>r. use_count kn r = 0) \<longrightarrow>
            (\<forall>r. use_count (snd (imx377_power_on priv kn)) r = 0))"
proof -
  from \<open>k < 4\<close> consider "k = 0" | "k = 1" | "k = 2" | "k = 3"
    by linarith
  then show ?thesis
  proof cases
    case 1
    with assms(3) have "pending kn 0 \<noteq> 0" by simp
    from power_on_fail_dvdd [OF this, of priv] 1 show ?thesis
      by (simp add: power_seq_def)
  next
    case 2
    with assms(2,3) have "pending kn 0 = 0" "pending kn 1 \<noteq> 0" by simp_all
    from power_on_fail_avdd [OF this, of priv] 2 \<open>pending kn 0 = 0\<close> show ?thesis
      by (simp add: power_seq_def)
  next
    case 3
    with assms(2,3) have p: "pending kn 0 = 0" "pending kn 1 = 0" "pending kn 2 \<noteq> 0"
      by simp_all
    from power_on_fail_dovdd [OF this, of priv] 3 p(1,2) show ?thesis
      by (simp add: power_seq_def numeral_2_eq_2)
  next
    case 4
    with assms(2,3) have p: "pending kn 0 = 0" "pending kn 1 = 0" "pending kn 2 = 0"
      "pending kn 3 \<noteq> 0"
      by simp_all
    from power_on_fail_xclk [OF this, of priv] 4 p(1,2,3) show ?thesis
      by (simp add: power_seq_def numeral_2_eq_2 numeral_3_eq_3)
  qed
qed

text \<open>The I/O rail fails with \<open>-EIO\<close> on a sequencer that was off.\<close>
theorem power_on_rollback_witness:
  "fst (imx377_power_on board (kernel_off (script [0, 0, - 5]))) = - 5
   \<and> trace (snd (imx377_power_on board (kernel_off (script [0, 0, - 5])))) =
       [Enable DVDD 0, Enable AVDD 0, Enable DOVDD (- 5), Disable AVDD, Disable DVDD]
   \<and> (\<forall>r. use_count (snd (imx377_power_on board (kernel_off (script [0, 0, - 5])))) r = 0)"
proof -
  let ?K = "kernel_off (script [0, 0, - 5])"
  have h1: "\<forall>i<2. pending ?K i = 0"
    by (auto simp add: kernel_off_def script_def dest!: less_2_cases)
  have h2: "pending ?K 2 \<noteq> 0"
    by (simp add: kernel_off_def script_def)
  have h3: "\<forall>r. use_count ?K r = 0"
    by (simp add: kernel_off_def)
  have p: "pending ?K 0 = 0" "pending ?K 1 = 0" "pending ?K 2 = - 5" "trace ?K = []"
    by (simp_all add: kernel_off_def script_def)
  from power_on_rollback [of 2 ?K board, OF _ h1 h2] h3 p show ?thesis
    by (simp add: power_seq_def upt_0_3)
qed

text \<open>
  C4, as the code has it. \<open>imx377_power_off\<close> consults no enabled flag: on every call, in
  every state, it sets the reset line to 0 and the power-down line to 1 when they are
  present and then disables the clock, dovdd, avdd and dvdd, in this order. A second call
  issues the same four disables a second time.
\<close>
theorem power_off_unguarded:
  "trace (imx377_power_off priv k) = trace k @ power_off_calls priv
   \<and> trace (imx377_power_off priv (imx377_power_off priv k)) =
       trace k @ power_off_calls priv @ power_off_calls priv"
  by (simp add: power_off_eq)

text \<open>
  C4, as stated, fails: after one successful power-on, two calls of power-off in a row
  log every disable twice; the second four reach resources whose use count is already 0.
\<close>
theorem power_off_twice_counterexample:
  "trace (imx377_power_off board (imx377_power_off board
            (snd (imx377_power_on board (kernel_off (script [])))))) =
     [Enable DVDD 0, Enable AVDD 0, Enable DOVDD 0, Enable XCLK 0,
      GpiodSetValue ResetLine 1, UsleepRange 5000 10000,
      GpiodSetValue ResetLine 0, Disable XCLK, Disable DOVDD, Disable AVDD, Disable DVDD,
      GpiodSetValue ResetLine 0, Disable XCLK, Disable DOVDD, Disable AVDD, Disable DVDD]
   \<and> use_count (imx377_power_off board
            (snd (imx377_power_on board (kernel_off (script []))))) = (\<lambda>r. 0)"
proof -
  have p: "pending (kernel_off (script [])) 0 = 0" "pending (kernel_off (script [])) 1 = 0"
    "pending (kernel_off (script [])) 2 = 0" "pending (kernel_off (script [])) 3 = 0"
    by (simp_all add: kernel_off_def script_def)
  show ?thesis
    unfolding power_on_ok [OF p] power_off_eq
    by (simp add: power_on_calls_def power_off_calls_def gpio_calls_def board_def
        kernel_off_def)
qed

section \<open>Failed start and stop of streaming\<close>

lemma start_streaming_standby_fails:
  assumes on: "pending k 0 = 0" "pending k 1 = 0" "pending k 2 = 0" "pending k 3 = 0"
      and fail: "pending k 4 \<noteq> 3"
  shows "imx377_start_streaming priv k =
     (if pending k 4 <s 0 then pending k 4 else - EIO, priv,
      \<lparr>pending = (\<lambda>n. pending k (Suc (n + 4))),
       trace = trace k @ power_on_calls priv
                 @ [I2cMasterSend [0x30, 0x00, 0x00] 3 (pending k 4)]
                 @ power_off_calls priv,
       use_count = use_count k\<rparr>)"
proof -
  let ?k1 = "snd (imx377_power_on priv k)"
  let ?w = "imx377_write_reg IMX377_STANDBY 0x00 ?k1"
  have p: "imx377_power_on priv k = (0, ?k1)"
    by (simp add: power_on_ok [OF on])
  have k1: "pending ?k1 0 = pending k 4"
    by (simp add: power_on_ok [OF on])
  have w: "?w = (fst ?w, snd ?w)" by simp
  have nz: "fst ?w \<noteq> 0"
    using fail by (simp add: write_reg_ok_iff k1)
  have "imx377_start_streaming priv k = err_power (fst ?w) priv (snd ?w)"
    unfolding imx377_start_streaming_def
    by (subst p, simp only: split Let_def, subst w, simp only: split nz) simp
  also have "\<dots> = (if pending k 4 <s 0 then pending k 4 else - EIO, priv,
      \<lparr>pending = (\<lambda>n. pending k (Suc (n + 4))),
       trace = trace k @ power_on_calls priv
                 @ [I2cMasterSend [0x30, 0x00, 0x00] 3 (pending k 4)]
                 @ power_off_calls priv,
       use_count = use_count k\<rparr>)"
    using fail
    by (simp add: err_power_def power_off_eq write_reg_fst write_reg_snd power_on_ok [OF on]
        reg_bytes)
  finally show ?thesis .
qed

lemma start_streaming_mode_select_fails:
  assumes on: "pending k 0 = 0" "pending k 1 = 0" "pending k 2 = 0" "pending k 3 = 0"
      and ok: "pending k 4 = 3" and fail: "pending k 5 \<noteq> 3"
  shows "imx377_start_streaming priv k =
     (if pending k 5 <s 0 then pending k 5 else - EIO, priv,
      \<lparr>pending = (\<lambda>n. pending k (Suc (Suc (n + 4)))),
       trace = trace k @ power_on_calls priv
                 @ [I2cMasterSend [0x30, 0x00, 0x00] 3 3,
                    I2cMasterSend [0x01, 0x00, 0x01] 3 (pending k 5)]
                 @ power_off_calls priv,
       use_count = use_count k\<rparr>)"
proof -
  let ?k1 = "snd (imx377_power_on priv k)"
  let ?w = "imx377_write_reg IMX377_STANDBY 0x00 ?k1"
  let ?m = "imx377_write_reg IMX377_REG_MODE_SELECT 0x01 (snd ?w)"
  have p: "imx377_power_on priv k = (0, ?k1)"
    by (simp add: power_on_ok [OF on])
  have k1: "pending ?k1 0 = pending k 4" "pending ?k1 (Suc 0) = pending k 5"
    by (simp_all add: power_on_ok [OF on])
  have w: "?w = (0, snd ?w)"
    using ok by (simp add: prod_eq_iff write_reg_ok_iff k1)
  have k2: "pending (snd ?w) 0 = pending k 5"
    by (simp add: write_reg_snd k1)
  have m: "?m = (fst ?m, snd ?m)" by simp
  have nz: "fst ?m \<noteq> 0"
    using fail by (simp add: write_reg_ok_iff k2)
  have "imx377_start_streaming priv k = err_power (fst ?m) priv (snd ?m)"
    unfolding imx377_start_streaming_def
    by (subst p, simp only: split Let_def, subst w, simp only: split, subst m,
        simp only: split nz) simp
  also have "\<dots> = (if pending k 5 <s 0 then pending k 5 else - EIO, priv,
      \<lparr>pending = (\<lambda>n. pending k (Suc (Suc (n + 4)))),
       trace = trace k @ power_on_calls priv
                 @ [I2cMasterSend [0x30, 0x00, 0x00] 3 3,
                    I2cMasterSend [0x01, 0x00, 0x01] 3 (pending k 5)]
                 @ power_off_calls priv,
       use_count = use_count k\<rparr>)"
    using fail ok
    by (simp add: err_power_def power_off_eq write_reg_fst write_reg_snd power_on_ok [OF on]
        reg_bytes k1)
  finally show ?thesis .
qed

lemma stop_streaming_eq:
  "imx377_stop_streaming priv k =
     (if pending k 0 = 3 then 0 else if pending k 0 <s 0 then pending k 0 else - EIO,
      priv\<lparr>streaming := False\<rparr>,
      \<lparr>pending = (\<lambda>n. pending k (Suc n)),
       trace = trace k @ I2cMasterSend [0x01, 0x00, 0x00] 3 (pending k 0) # power_off_calls priv,
       use_count = (\<lambda>r. use_count k r - 1)\<rparr>)"
  by (simp add: imx377_stop_streaming_def imx377_write_reg_eq power_off_eq reg_bytes
      power_off_calls_def)

text \<open>
  C2. Let the four enables succeed and let the standby write or the mode-select write
  fail (the bus returns something other than 3). Then \<open>imx377_start_streaming\<close> returns
  the code of the failed write, which is not 0; the calls of \<open>imx377_power_off\<close> follow
  the failed write and end the log; the device record and every use count are what they
  were at entry. So a device that was idle with every resource off ends the call idle
  with every resource off.
\<close>
theorem start_streaming_write_failure:
  assumes on: "\<forall>i<4. pending k i = 0"
      and fail: "pending k 4 \<noteq> 3 \<or> pending k 5 \<noteq> 3"
  shows "fst (imx377_start_streaming priv k) \<noteq> 0
       \<and> fst (imx377_start_streaming priv k) =
           (let r = (if pending k 4 \<noteq> 3 then pending k 4 else pending k 5)
            in if r <s 0 then r else - EIO)
       \<and> trace (snd (snd (imx377_start_streaming priv k))) =
           trace k @ power_on_calls priv
             @ I2cMasterSend [0x30, 0x00, 0x00] 3 (pending k 4)
             # (if pending k 4 = 3 then [I2cMasterSend [0x01, 0x00, 0x01] 3 (pending k 5)]
                else [])
             @ power_off_calls priv
       \<and> fst (snd (imx377_start_streaming priv k)) = priv
       \<and> use_count (snd (snd (imx377_start_streaming priv k))) = use_count k
       \<and> (\<not> streaming priv \<longrightarrow> \<not> streaming (fst (snd (imx377_start_streaming priv k))))
       \<and> ((\<forall>r. use_count k r = 0) \<longrightarrow>
            (\<forall>r. use_count (snd (snd (imx377_start_streaming priv k))) r = 0))"
proof -
  from on have p: "pending k 0 = 0" "pending k 1 = 0" "pending k 2 = 0" "pending k 3 = 0"
    by simp_all
  have e: "- EIO \<noteq> 0" by (simp add: EIO_def)
  show ?thesis
  proof (cases "pending k 4 = 3")
    case False
    from start_streaming_standby_fails [OF p False, of priv] False e show ?thesis
      by (auto simp add: Let_def word_sless_alt)
  next
    case True
    with fail have f: "pending k 5 \<noteq> 3" by simp
    from start_streaming_mode_select_fails [OF p True f, of priv] True e show ?thesis
      by (auto simp add: Let_def word_sless_alt)
  qed
qed

text \<open>
  The mode-select write is refused with \<open>-ENXIO\<close>, and the standby write moves one byte
  only, each on the idle board with every resource off.
\<close>
theorem start_streaming_write_failure_witness:
  "imx377_start_streaming board (kernel_off (script [0, 0, 0, 0, 3, - 6])) =
     (- 6, board,
      \<lparr>pending = (\<lambda>n. script [0, 0, 0, 0, 3, - 6] (Suc (Suc (n + 4)))),
       trace = [Enable DVDD 0, Enable AVDD 0, Enable DOVDD 0, Enable XCLK 0,
                GpiodSetValue ResetLine 1, UsleepRange 5000 10000,
                I2cMasterSend [0x30, 0x00, 0x00] 3 3,
                I2cMasterSend [0x01, 0x00, 0x01] 3 (- 6),
                GpiodSetValue ResetLine 0,
                Disable XCLK, Disable DOVDD, Disable AVDD, Disable DVDD],
       use_count = (\<lambda>r. 0)\<rparr>)
   \<and> \<not> streaming (fst (snd (imx377_start_streaming board
                                (kernel_off (script [0, 0, 0, 0, 3, - 6])))))
   \<and> fst (imx377_start_streaming board (kernel_off (script [0, 0, 0, 0, 1]))) = - 5
   \<and> \<not> streaming (fst (snd (imx377_start_streaming board
                                (kernel_off (script [0, 0, 0, 0, 1])))))
   \<and> (\<forall>r. use_count (snd (snd (imx377_start_streaming board
                                   (kernel_off (script [0, 0, 0, 0, 1]))))) r = 0)"
proof -
  let ?A = "kernel_off (script [0, 0, 0, 0, 3, - 6])"
  let ?B = "kernel_off (script [0, 0, 0, 0, 1])"
  have a: "\<forall>i<4. pending ?A i = 0" "pending ?A 4 \<noteq> 3 \<or> pending ?A 5 \<noteq> 3"
    "\<forall>r. use_count ?A r = 0" "pending ?A 4 = 3" "pending ?A 5 = - 6" "trace ?A = []"
    by (auto simp add: kernel_off_def script_def dest!: less_4_cases)
  have b: "\<forall>i<4. pending ?B i = 0" "pending ?B 4 \<noteq> 3 \<or> pending ?B 5 \<noteq> 3"
    "\<forall>r. use_count ?B r = 0" "pending ?B 4 = 1"
    by (auto simp add: kernel_off_def script_def dest!: less_4_cases)
  have i: "\<not> streaming board" by (simp add: board_def)
  have pend: "pending (snd (snd (imx377_start_streaming board ?A))) =
      (\<lambda>n. script [0, 0, 0, 0, 3, - 6] (Suc (Suc (n + 4))))"
    using a(1,4,5)
    by (subst start_streaming_mode_select_fails) (simp_all add: kernel_off_def)
  have g: "power_on_calls board =
      [Enable DVDD 0, Enable AVDD 0, Enable DOVDD 0, Enable XCLK 0,
       GpiodSetValue ResetLine 1, UsleepRange 5000 10000]"
    "power_off_calls board =
      [GpiodSetValue ResetLine 0, Disable XCLK, Disable DOVDD, Disable AVDD, Disable DVDD]"
    by (simp_all add: power_on_calls_def power_off_calls_def gpio_calls_def board_def)
  have n: "(- 6 :: s32) <s 0" "\<not> (1 :: s32) <s 0"
    by (simp_all add: word_sless_alt)
  from start_streaming_write_failure [OF a(1) a(2), of board]
    start_streaming_write_failure [OF b(1) b(2), of board] i a(3) b(3)
  show ?thesis
    unfolding prod_eq_iff
    by (simp add: a(4,5,6) b(4) g n pend EIO_def kernel.equality fun_eq_iff)
qed

text \<open>
  C3. Whatever the bus answers to the streaming-disable write, \<open>imx377_stop_streaming\<close>
  returns the status of that write, clears the streaming flag and then makes the calls of
  \<open>imx377_power_off\<close>, which take one from every use count: a device powered by one
  power-on has every resource off afterwards.
\<close>
theorem stop_streaming_powers_off:
  "fst (imx377_stop_streaming priv k) = fst (imx377_write_reg IMX377_REG_MODE_SELECT 0x00 k)
   \<and> \<not> streaming (fst (snd (imx377_stop_streaming priv k)))
   \<and> trace (snd (snd (imx377_stop_streaming priv k))) =
       trace k @ I2cMasterSend [0x01, 0x00, 0x00] 3 (pending k 0) # power_off_calls priv
   \<and> (\<forall>r. use_count (snd (snd (imx377_stop_streaming priv k))) r = use_count k r - 1)
   \<and> ((\<forall>r. use_count k r \<le> 1) \<longrightarrow>
        (\<forall>r. use_count (snd (snd (imx377_stop_streaming priv k))) r = 0))"
  by (simp add: stop_streaming_eq write_reg_fst)

text \<open>A streaming board whose bus refuses the write, and one whose bus accepts it.\<close>
theorem stop_streaming_powers_off_witness:
  "imx377_stop_streaming (board\<lparr>streaming := True\<rparr>) (kernel_on (script [- 6])) =
     (- 6, board,
      \<lparr>pending = (\<lambda>n. script [- 6] (Suc n)),
       trace = [I2cMasterSend [0x01, 0x00, 0x00] 3 (- 6), GpiodSetValue ResetLine 0,
                Disable XCLK, Disable DOVDD, Disable AVDD, Disable DVDD],
       use_count = (\<lambda>r. 0)\<rparr>)
   \<and> fst (imx377_stop_streaming (board\<lparr>streaming := True\<rparr>) (kernel_on (script [3]))) = 0
   \<and> (\<forall>r. use_count (snd (snd (imx377_stop_streaming (board\<lparr>streaming := True\<rparr>)
                                   (kernel_on (script [3]))))) r = 0)"
proof -
  let ?A = "kernel_on (script [- 6])"
  let ?B = "kernel_on (script [3])"
  let ?dev = "board\<lparr>streaming := True\<rparr>"
  have a: "\<forall>r. use_count ?A r \<le> 1" "\<forall>r. use_count ?B r \<le> 1"
    "pending ?A 0 = - 6" "pending ?B 0 = 3" "trace ?A = []"
    by (simp_all add: kernel_on_def script_def)
  have g: "power_off_calls ?dev =
      [GpiodSetValue ResetLine 0, Disable XCLK, Disable DOVDD, Disable AVDD, Disable DVDD]"
    by (simp add: power_off_calls_def gpio_calls_def board_def)
  have n: "(- 6 :: s32) <s 0"
    by (simp add: word_sless_alt)
  have rest: "fst (snd (imx377_stop_streaming ?dev ?A)) = board"
    "pending (snd (snd (imx377_stop_streaming ?dev ?A))) = (\<lambda>n. script [- 6] (Suc n))"
    by (simp_all add: stop_streaming_eq board_def kernel_on_def)
  from stop_streaming_powers_off [of ?dev ?A] stop_streaming_powers_off [of ?dev ?B] a(1,2)
  show ?thesis
    unfolding prod_eq_iff
    by (simp add: a(3,4,5) g n rest write_reg_fst kernel.equality fun_eq_iff)
qed

section \<open>Control writes\<close>

lemma set_ctrl_exposure_eq:
  assumes "streaming priv" "ctrl_id ctrl = V4L2_CID_EXPOSURE"
  shows "imx377_set_ctrl ctrl priv k =
     (fst (imx377_write_reg IMX377_REG_EXPOSURE_H (exposure_h (ctrl_val ctrl)) k) OR
      fst (imx377_write_reg IMX377_REG_EXPOSURE_L (exposure_l (ctrl_val ctrl))
             (snd (imx377_write_reg IMX377_REG_EXPOSURE_H (exposure_h (ctrl_val ctrl)) k))),
      priv,
      \<lparr>pending = (\<lambda>n. pending k (Suc (Suc n))),
       trace = trace k @
         [I2cMasterSend [0x30, 0x0B, exposure_h (ctrl_val ctrl)] 3 (pending k 0),
          I2cMasterSend [0x30, 0x0C, exposure_l (ctrl_val ctrl)] 3 (pending k 1)],
       use_count = use_count k\<rparr>)"
  using assms
  by (simp add: imx377_set_ctrl_def imx377_write_reg_eq reg_bytes)

lemma set_ctrl_gain_eq:
  assumes "streaming priv" "ctrl_id ctrl = V4L2_CID_ANALOGUE_GAIN"
  shows "imx377_set_ctrl ctrl priv k =
     (fst (imx377_write_reg IMX377_REG_GAIN_H (gain_h (ctrl_val ctrl)) k) OR
      fst (imx377_write_reg IMX377_REG_GAIN_L (gain_l (ctrl_val ctrl))
             (snd (imx377_write_reg IMX377_REG_GAIN_H (gain_h (ctrl_val ctrl)) k))),
      priv,
      \<lparr>pending = (\<lambda>n. pending k (Suc (Suc n))),
       trace = trace k @
         [I2cMasterSend [0x30, 0x09, gain_h (ctrl_val ctrl)] 3 (pending k 0),
          I2cMasterSend [0x30, 0x0A, gain_l (ctrl_val ctrl)] 3 (pending k 1)],
       use_count = use_count k\<rparr>)"
  using assms
  by (simp add: imx377_set_ctrl_def imx377_write_reg_eq reg_bytes
      V4L2_CID_EXPOSURE_def V4L2_CID_ANALOGUE_GAIN_def)

text \<open>
  C6. On a streaming device, setting the exposure makes exactly two bus writes: the byte
  \<open>(val >> 8) & 0xFF\<close> to register \<open>0x300B\<close>, then the byte \<open>val & 0xFF\<close> to register
  \<open>0x300C\<close>, whatever the bus answers to the first.
\<close>
theorem set_ctrl_exposure_writes:
  assumes "streaming priv" and "ctrl_id ctrl = V4L2_CID_EXPOSURE"
  shows "trace (snd (snd (imx377_set_ctrl ctrl priv k))) =
     trace k @
       [I2cMasterSend [0x30, 0x0B, ucast (signed_drop_bit 8 (ctrl_val ctrl) AND 0xFF)] 3
          (pending k 0),
        I2cMasterSend [0x30, 0x0C, ucast (ctrl_val ctrl AND 0xFF)] 3 (pending k 1)]"
  by (simp add: set_ctrl_exposure_eq [OF assms] exposure_h_def exposure_l_def)

text \<open>Exposure \<open>0x0100\<close>: high byte \<open>0x01\<close>, low byte \<open>0x00\<close>.\<close>
theorem set_ctrl_exposure_writes_witness:
  "trace (snd (snd (imx377_set_ctrl \<lparr>ctrl_id = V4L2_CID_EXPOSURE, ctrl_val = 0x0100\<rparr>
                      (board\<lparr>streaming := True\<rparr>) (kernel_on (script [3, 3]))))) =
     [I2cMasterSend [0x30, 0x0B, 0x01] 3 3, I2cMasterSend [0x30, 0x0C, 0x00] 3 3]"
proof -
  have s: "streaming (board\<lparr>streaming := True\<rparr>)"
    "ctrl_id \<lparr>ctrl_id = V4L2_CID_EXPOSURE, ctrl_val = 0x0100\<rparr> = V4L2_CID_EXPOSURE"
    by simp_all
  have b: "(ucast (signed_drop_bit 8 (0x0100 :: s32) AND 0xFF) :: u8) = 0x01"
    "(ucast ((0x0100 :: s32) AND 0xFF) :: u8) = 0x00"
    by simp_all
  from set_ctrl_exposure_writes [OF s, of "kernel_on (script [3, 3])"] show ?thesis
    by (simp add: b kernel_on_def script_def)
qed



text \<open>
  C10. On a streaming device, a control whose id is neither exposure nor analogue gain is
  accepted with 0 and nothing happens: the log and the device are unchanged.
\<close>
theorem set_ctrl_unknown_id:
  assumes "streaming priv" and "ctrl_id ctrl \<noteq> V4L2_CID_EXPOSURE"
      and "ctrl_id ctrl \<noteq> V4L2_CID_ANALOGUE_GAIN"
  shows "fst (imx377_set_ctrl ctrl priv k) = 0
       \<and> trace (snd (snd (imx377_set_ctrl ctrl priv k))) = trace k
       \<and> imx377_set_ctrl ctrl priv k = (0, priv, k)"
  using assms by (simp add: imx377_set_ctrl_def)

text \<open>The id \<open>0x00980900\<close> is \<open>V4L2_CID_BRIGHTNESS\<close>.\<close>
theorem set_ctrl_unknown_id_witness:
  "imx377_set_ctrl \<lparr>ctrl_id = 0x00980900, ctrl_val = 42\<rparr> (board\<lparr>streaming := True\<rparr>)
     (kernel_on (script [3, 3])) = (0, board\<lparr>streaming := True\<rparr>, kernel_on (script [3, 3]))"
proof -
  have s: "streaming (board\<lparr>streaming := True\<rparr>)"
    "ctrl_id \<lparr>ctrl_id = 0x00980900, ctrl_val = 42\<rparr> \<noteq> V4L2_CID_EXPOSURE"
    "ctrl_id \<lparr>ctrl_id = 0x00980900, ctrl_val = 42\<rparr> \<noteq> V4L2_CID_ANALOGUE_GAIN"
    by (simp_all add: V4L2_CID_EXPOSURE_def V4L2_CID_ANALOGUE_GAIN_def)
  from set_ctrl_unknown_id [OF s, of "kernel_on (script [3, 3])"] show ?thesis
    by simp
qed

text \<open>
  Where the or of the two results is harmless: when one of the two writes succeeds, the
  value returned is the result of the other.
\<close>
lemma set_ctrl_single_failure:
  assumes "streaming priv"
      and "ctrl_id ctrl = V4L2_CID_EXPOSURE \<or> ctrl_id ctrl = V4L2_CID_ANALOGUE_GAIN"
  shows "pending k 1 = 3 \<Longrightarrow>
           fst (imx377_set_ctrl ctrl priv k) =
             (if pending k 0 = 3 then 0 else if pending k 0 <s 0 then pending k 0 else - EIO)"
    and "pending k 0 = 3 \<Longrightarrow>
           fst (imx377_set_ctrl ctrl priv k) =
             (if pending k 1 = 3 then 0 else if pending k 1 <s 0 then pending k 1 else - EIO)"
  using assms
  by (auto simp add: set_ctrl_exposure_eq set_ctrl_gain_eq write_reg_fst write_reg_snd)

text \<open>
  C5 on the code. Both writes are made, but the value returned is the bitwise or of the two
  results. When the bus fails the first write with \<open>-EREMOTEIO\<close> (\<open>-121\<close>) and the second
  with \<open>-ENXIO\<close> (\<open>-6\<close>), the first write returns \<open>-121\<close> and \<open>imx377_set_ctrl\<close> returns
  \<open>-1\<close>, which is neither.
\<close>
theorem set_ctrl_or_of_errors:
  "fst (imx377_set_ctrl \<lparr>ctrl_id = V4L2_CID_EXPOSURE, ctrl_val = 0x0100\<rparr>
          (board\<lparr>streaming := True\<rparr>) (kernel_on (script [- 121, - 6]))) = - 1
   \<and> fst (imx377_write_reg IMX377_REG_EXPOSURE_H 0x01 (kernel_on (script [- 121, - 6]))) = - 121
   \<and> trace (snd (snd (imx377_set_ctrl \<lparr>ctrl_id = V4L2_CID_EXPOSURE, ctrl_val = 0x0100\<rparr>
          (board\<lparr>streaming := True\<rparr>) (kernel_on (script [- 121, - 6]))))) =
       [I2cMasterSend [0x30, 0x0B, 0x01] 3 (- 121), I2cMasterSend [0x30, 0x0C, 0x00] 3 (- 6)]"
  by (simp add: set_ctrl_exposure_eq write_reg_fst kernel_on_def script_def board_def
      write_reg_snd word_sless_alt exposure_h_def exposure_l_def)

lemma gain_in_range_take_bit:
  fixes v :: s32
  assumes "0 \<le>s v" and "v \<le>s 0x7A5"
  shows "take_bit 11 v = v"
proof -
  from assms have s: "0 \<le> sint v" "sint v \<le> 1957"
    by (simp_all add: word_sle_eq)
  then have "take_bit 32 (sint v) = sint v"
    by (intro take_bit_int_eq_self) simp_all
  then have "uint v = sint v"
    by (simp add: uint_sint)
  with s(2) have "uint v < 2 ^ 11" by simp
  then have "v < 2 ^ 11"
    by (simp add: word_less_alt)
  then show ?thesis
    by (simp add: take_bit_eq_mask less_mask_eq)
qed

lemma masks: "(7 :: s32) = mask 3" "(0xFF :: s32) = mask 8"
  by (simp_all add: mask_eq_exp_minus_1)

lemma gain_decode_encode: "spec_gain_decode (gain_h v) (gain_l v) = take_bit 11 v"
  unfolding spec_gain_decode_def gain_h_def gain_l_def masks
  by (rule bit_word_eqI) (auto simp add: bit_simps)

text \<open>
  C8. On a streaming device, setting a gain from 0 to \<open>0x7A5\<close> makes exactly two bus
  writes: the byte \<open>(val >> 8) & 0x07\<close> to the gain high register \<open>0x3009\<close>, then the byte
  \<open>val & 0xFF\<close> to the gain low register \<open>0x300A\<close>; and the byte written to the high
  register, shifted left by eight and or-ed with the byte written to the low register, is
  the gain that was set.
\<close>
theorem gain_round_trip:
  assumes "streaming priv" and "ctrl_id ctrl = V4L2_CID_ANALOGUE_GAIN"
      and "0 \<le>s ctrl_val ctrl" and "ctrl_val ctrl \<le>s 0x7A5"
  shows "trace (snd (snd (imx377_set_ctrl ctrl priv k))) =
           trace k @
             [I2cMasterSend [0x30, 0x09, ucast (signed_drop_bit 8 (ctrl_val ctrl) AND 0x07)] 3
                (pending k 0),
              I2cMasterSend [0x30, 0x0A, ucast (ctrl_val ctrl AND 0xFF)] 3 (pending k 1)]
       \<and> spec_gain_decode (ucast (signed_drop_bit 8 (ctrl_val ctrl) AND 0x07))
                           (ucast (ctrl_val ctrl AND 0xFF)) = ctrl_val ctrl"
proof -
  have "spec_gain_decode (gain_h (ctrl_val ctrl)) (gain_l (ctrl_val ctrl)) = ctrl_val ctrl"
    by (simp only: gain_decode_encode gain_in_range_take_bit [OF assms(3,4)])
  then have d: "spec_gain_decode (ucast (signed_drop_bit 8 (ctrl_val ctrl) AND 0x07))
                           (ucast (ctrl_val ctrl AND 0xFF)) = ctrl_val ctrl"
    by (simp only: gain_h_def gain_l_def)
  have "trace (snd (snd (imx377_set_ctrl ctrl priv k))) =
           trace k @
             [I2cMasterSend [0x30, 0x09, gain_h (ctrl_val ctrl)] 3 (pending k 0),
              I2cMasterSend [0x30, 0x0A, gain_l (ctrl_val ctrl)] 3 (pending k 1)]"
    by (simp add: set_ctrl_gain_eq [OF assms(1,2)])
  then have t: "trace (snd (snd (imx377_set_ctrl ctrl priv k))) =
           trace k @
             [I2cMasterSend [0x30, 0x09, ucast (signed_drop_bit 8 (ctrl_val ctrl) AND 0x07)] 3
                (pending k 0),
              I2cMasterSend [0x30, 0x0A, ucast (ctrl_val ctrl AND 0xFF)] 3 (pending k 1)]"
    by (simp only: gain_h_def gain_l_def)
  from t d show ?thesis by (rule conjI)
qed

text \<open>
  Gain 500 is written as \<open>0x01\<close> to \<open>0x3009\<close> and \<open>0xF4\<close> to \<open>0x300A\<close>, the largest gain
  \<open>0x7A5\<close> as \<open>0x07\<close> and \<open>0xA5\<close>; each pair decodes to the gain.
\<close>
theorem gain_round_trip_witness:
  "trace (snd (snd (imx377_set_ctrl \<lparr>ctrl_id = V4L2_CID_ANALOGUE_GAIN, ctrl_val = 500\<rparr>
                      (board\<lparr>streaming := True\<rparr>) (kernel_on (script [3, 3]))))) =
     [I2cMasterSend [0x30, 0x09, 0x01] 3 3, I2cMasterSend [0x30, 0x0A, 0xF4] 3 3]
   \<and> spec_gain_decode 0x01 0xF4 = 500
   \<and> trace (snd (snd (imx377_set_ctrl \<lparr>ctrl_id = V4L2_CID_ANALOGUE_GAIN, ctrl_val = 0x7A5\<rparr>
                      (board\<lparr>streaming := True\<rparr>) (kernel_on (script [3, 3]))))) =
     [I2cMasterSend [0x30, 0x09, 0x07] 3 3, I2cMasterSend [0x30, 0x0A, 0xA5] 3 3]
   \<and> spec_gain_decode 0x07 0xA5 = 0x7A5"
proof -
  let ?a = "\<lparr>ctrl_id = V4L2_CID_ANALOGUE_GAIN, ctrl_val = 500\<rparr>"
  let ?b = "\<lparr>ctrl_id = V4L2_CID_ANALOGUE_GAIN, ctrl_val = 0x7A5\<rparr>"
  have s: "streaming (board\<lparr>streaming := True\<rparr>)" by simp
  have a: "ctrl_id ?a = V4L2_CID_ANALOGUE_GAIN" "0 \<le>s ctrl_val ?a" "ctrl_val ?a \<le>s 0x7A5"
    by (simp_all add: word_sle_eq)
  have b: "ctrl_id ?b = V4L2_CID_ANALOGUE_GAIN" "0 \<le>s ctrl_val ?b" "ctrl_val ?b \<le>s 0x7A5"
    by (simp_all add: word_sle_eq)
  have y: "(ucast (signed_drop_bit 8 (500 :: s32) AND 0x07) :: u8) = 0x01"
    "(ucast ((500 :: s32) AND 0xFF) :: u8) = 0xF4"
    "(ucast (signed_drop_bit 8 (0x7A5 :: s32) AND 0x07) :: u8) = 0x07"
    "(ucast ((0x7A5 :: s32) AND 0xFF) :: u8) = 0xA5"
    by simp_all
  from gain_round_trip [OF s a, of "kernel_on (script [3, 3])"]
    gain_round_trip [OF s b, of "kernel_on (script [3, 3])"]
  show ?thesis
    by (simp add: y kernel_on_def script_def)
qed

end
